theory Spec2Isabelle
  imports Main
begin

section \<open>Binance Futures feed: data model\<close>

text \<open>
  The embedding follows \<^verbatim>\<open>cryptofeed/exchange/binance_futures.py\<close>. A decoded JSON
  value is \<open>None\<close>, an integer, a string, a list or a dictionary. A dictionary is the
  list of its items, each key once and the keys in one fixed order, read with
  \<open>map_of\<close>; on such values HOL equality is Python's \<open>==\<close>. Decimals and booleans do
  not occur in the fields the code reads (the documented open-interest value is a
  string).
\<close>

datatype json =
    JNull
  | JInt int
  | JStr string
  | JArr "json list"
  | JObj "(string \<times> json) list"

type_synonym dict = "(string \<times> json) list"

text \<open>The exceptions the code can raise; \<open>KeyError\<close> carries the missing key.\<close>

datatype error =
    KeyError string
  | TypeError
  | ValueError
  | AttributeError
  | CollaboratorError string

text \<open>
  What a call does besides changing the adapter: the call of the inherited
  \<^verbatim>\<open>self._reset()\<close>, a \<^verbatim>\<open>LOG.warning(fmt, args...)\<close>, and the hand-over
  \<^verbatim>\<open>self.callback(channel, feed=..., symbol=..., open_interest=..., timestamp=...,
  receipt_timestamp=...)\<close> to the downstream sink. Time stamps are floats in the code;
  the model keeps them abstract (\<open>'t\<close>).
\<close>

datatype 't effect =
    ResetCalled
  | LogWarning string "json list"
  | Callback string string string json 't 't

text \<open>
  The attributes of the adapter object that the source file reads or writes.
  \<open>feed_id\<close> is \<^verbatim>\<open>self.id\<close>. \<open>subscription\<close> is a dictionary from channel to
  symbols, kept in iteration order; \<open>open_interest_cache\<close> is \<^verbatim>\<open>self.open_interest\<close>.
  \<^verbatim>\<open>self.last_update_id\<close> is indexed by symbol and raises for a symbol it does not hold.
\<close>

text \<open>
  Modelled from the spec: the type of \<^verbatim>\<open>self.forced\<close>, which the inherited constructor
  creates and the sources do not show. By section 3 of the specification a symbol's
  \<open>synced\<close> flag is false until the first bracketing diff has been accepted, so the flag
  of a symbol never stored reads \<open>False\<close>: \<open>forced\<close> is a total function.
\<close>

record feed =
  feed_id :: string
  ws_endpoint :: string
  channels :: "string list"
  symbols :: "string list"
  subscription :: "(string \<times> string list) list"
  forced :: "string \<Rightarrow> bool"
  last_update_id :: "string \<rightharpoonup> int"
  open_interest_cache :: "json \<rightharpoonup> json"

text \<open>
  What the file uses and does not define: the channel names \<^verbatim>\<open>OPEN_INTEREST\<close> and
  \<^verbatim>\<open>TICKER\<close> of \<^verbatim>\<open>cryptofeed.defines\<close>, the two functions of
  \<^verbatim>\<open>cryptofeed.standards\<close> (either may raise), the reading of \<^verbatim>\<open>time.time()\<close>
  during the call, and Python's \<^verbatim>\<open>str.lower()\<close> and \<^verbatim>\<open>str.upper()\<close>, which follow the
  Unicode tables. They are parameters of the model. What the two string methods do on
  ASCII text is defined below (\<open>lower\<close>, \<open>upper\<close>); a theorem that depends on the case
  of a string assumes that the text is ASCII and that the method agrees with it there.
\<close>

record 't env =
  OPEN_INTEREST :: string
  TICKER :: string
  symbol_exchange_to_std :: "json \<Rightarrow> error + string"
  timestamp_normalize :: "string \<Rightarrow> json \<Rightarrow> error + 't"
  time_time :: 't
  str_lower :: "string \<Rightarrow> string"
  str_upper :: "string \<Rightarrow> string"

text \<open>\<^verbatim>\<open>d.get(k, None)\<close> (and \<^verbatim>\<open>d.get(k)\<close>): a missing key reads as \<open>None\<close>.\<close>

definition get :: "('k \<rightharpoonup> json) \<Rightarrow> 'k \<Rightarrow> json" where
  "get d k = (case d k of None \<Rightarrow> JNull | Some v \<Rightarrow> v)"

text \<open>Lists and dictionaries cannot be dictionary keys (\<open>TypeError\<close>).\<close>

fun hashable :: "json \<Rightarrow> bool" where
  "hashable (JArr _) = False"
| "hashable (JObj _) = False"
| "hashable _ = True"

text \<open>
  ASCII text: every character is below 128 (\<^verbatim>\<open>str.isascii()\<close>). On ASCII text
  \<^verbatim>\<open>str.lower()\<close> replaces each of the letters A to Z by the matching letter a to z and
  keeps every other character, and \<^verbatim>\<open>str.upper()\<close> does the converse.
\<close>

definition is_ascii :: "string \<Rightarrow> bool" where
  "is_ascii s = list_all (\<lambda>c. (of_char c :: nat) < 128) s"

definition lower_char :: "char \<Rightarrow> char" where
  "lower_char c =
     (case map_of (zip ''ABCDEFGHIJKLMNOPQRSTUVWXYZ'' ''abcdefghijklmnopqrstuvwxyz'') c of
        None \<Rightarrow> c
      | Some l \<Rightarrow> l)"

definition upper_char :: "char \<Rightarrow> char" where
  "upper_char c =
     (case map_of (zip ''abcdefghijklmnopqrstuvwxyz'' ''ABCDEFGHIJKLMNOPQRSTUVWXYZ'') c of
        None \<Rightarrow> c
      | Some u \<Rightarrow> u)"

definition lower :: "string \<Rightarrow> string" where
  "lower s = map lower_char s"

definition upper :: "string \<Rightarrow> string" where
  "upper s = map upper_char s"

section \<open>Order-book consistency check\<close>

text \<open>
  \<^verbatim>\<open>_check_update_id(self, pair, msg)\<close>. The sequence fields \<open>U\<close>, \<open>u\<close>, \<open>pu\<close>
  of a depth payload are JSON integers, so \<open>msg\<close> is the payload restricted to its
  integer fields; a field that is missing raises \<open>KeyError\<close>, as does a symbol without
  \<^verbatim>\<open>last_update_id\<close>. The inherited \<^verbatim>\<open>_reset\<close> is the parameter \<open>rst\<close>: it acts on
  the whole adapter and receives no symbol. Every \<open>Inl\<close> is raised before the adapter is
  changed and before anything is emitted. The result is
  \<open>((skip_update, forced), adapter afterwards, effects)\<close>.
\<close>

definition resync :: "(feed \<Rightarrow> feed) \<Rightarrow> feed \<Rightarrow> bool \<Rightarrow> error + ((bool \<times> bool) \<times> feed \<times> 't effect list)" where
  "resync rst self fo =
     (let self' = rst self
      in Inr ((True, fo), self',
              [ResetCalled,
               LogWarning ''%s: Missing book update detected, resetting book'' [JStr (feed_id self')]]))"

definition check_update_id ::
    "(feed \<Rightarrow> feed) \<Rightarrow> feed \<Rightarrow> string \<Rightarrow> (string \<rightharpoonup> int) \<Rightarrow> error + ((bool \<times> bool) \<times> feed \<times> 't effect list)" where
  "check_update_id rst self pair msg =
     (let fo = \<not> forced self pair
      in if fo then
           (case msg ''u'' of
              None \<Rightarrow> Inl (KeyError ''u'')
            | Some u \<Rightarrow>
               (case last_update_id self pair of
                  None \<Rightarrow> Inl (KeyError pair)
                | Some l \<Rightarrow>
                   if u < l then Inr ((True, fo), self, [])
                   else
                     (case msg ''U'' of
                        None \<Rightarrow> Inl (KeyError ''U'')
                      | Some U \<Rightarrow>
                         if U \<le> l \<and> l \<le> u then
                           Inr ((False, fo),
                                self\<lparr>last_update_id := (last_update_id self)(pair \<mapsto> u),
                                     forced := (forced self)(pair := True)\<rparr>,
                                [])
                         else resync rst self fo)))
         else
           (case last_update_id self pair of
              None \<Rightarrow> Inl (KeyError pair)
            | Some l \<Rightarrow>
               (case msg ''pu'' of
                  None \<Rightarrow> Inl (KeyError ''pu'')
                | Some pu \<Rightarrow>
                   if l = pu then
                     (case msg ''u'' of
                        None \<Rightarrow> Inl (KeyError ''u'')
                      | Some u \<Rightarrow>
                         Inr ((False, fo),
                              self\<lparr>last_update_id := (last_update_id self)(pair \<mapsto> u)\<rparr>,
                              [])
                     )
                   else resync rst self fo)))"

text \<open>
  Modelled from the spec: the inherited \<^verbatim>\<open>Binance._reset()\<close> is not among the sources.
  Section 4.4 of the specification: the resync invalidates the locally held book and
  resets local state so that the next accepted diff must again satisfy the
  Unsynced-state bracketing condition. The source calls it without the symbol, so the
  model returns every symbol to Unsynced; the invalidation of the book is the signal
  \<open>ResetCalled\<close>. The specification does not say what becomes of \<open>lastUpdateId\<close>, and
  the model leaves it.
\<close>

definition reset :: "feed \<Rightarrow> feed" where
  "reset self = self\<lparr>forced := (\<lambda>_. False)\<rparr>"

text \<open>The two states of a symbol in the specification's table.\<close>

definition synced :: "feed \<Rightarrow> string \<Rightarrow> bool" where
  "synced self pair = forced self pair"

definition unsynced :: "feed \<Rightarrow> string \<Rightarrow> bool" where
  "unsynced self pair = (\<not> forced self pair)"

section \<open>Streaming address\<close>

text \<open>
  \<^verbatim>\<open>_address(self)\<close>. The inner loop appends one stream name and a slash for each symbol
  of the channel; the outer loop skips the open-interest channel. With a subscription
  the channels are its keys and the symbols of a channel are \<^verbatim>\<open>self.subscription[chan]\<close>;
  without one they are \<^verbatim>\<open>self.channels\<close> and \<^verbatim>\<open>self.symbols\<close>.
\<close>

fun address_pairs :: "'t env \<Rightarrow> string \<Rightarrow> string list \<Rightarrow> string \<Rightarrow> string" where
  "address_pairs d chan [] address = address"
| "address_pairs d chan (pair # rest) address =
     (let pair = str_lower d pair;
          stream = (if chan = TICKER d then pair @ ''@bookTicker/''
                    else pair @ ''@'' @ chan @ ''/'')
      in address_pairs d chan rest (address @ stream))"

fun address_chans :: "'t env \<Rightarrow> feed \<Rightarrow> string list \<Rightarrow> string \<Rightarrow> error + string" where
  "address_chans d self [] address = Inr address"
| "address_chans d self (chan # rest) address =
     (if chan = OPEN_INTEREST d then address_chans d self rest address
      else if subscription self = [] then
        address_chans d self rest (address_pairs d chan (symbols self) address)
      else
        (case map_of (subscription self) chan of
           None \<Rightarrow> Inl (KeyError chan)
         | Some pairs \<Rightarrow> address_chans d self rest (address_pairs d chan pairs address)))"

definition address :: "'t env \<Rightarrow> feed \<Rightarrow> error + string option" where
  "address d self =
     (case address_chans d self
             (if subscription self = [] then channels self else map fst (subscription self))
             (ws_endpoint self @ ''/stream?streams='') of
        Inl e \<Rightarrow> Inl e
      | Inr a \<Rightarrow>
         if a = ws_endpoint self @ ''/stream?streams='' then Inr None
         else Inr (Some (butlast a)))"

text \<open>
  The builder in the words of the specification (section 4.1): the configured channels,
  each with the global symbols or its own override; the open-interest channel
  contributes nothing; the ticker channel maps to the best-bid/offer stream name and any
  other channel to \<open><symbol>@<channelName>\<close>, the symbol lower-cased; the address lists
  the stream names, and there is none when the list is empty. Lower-casing is stated on
  character codes, independently of \<open>lower\<close>: a capital letter (codes 65
  to 90) becomes the letter 32 codes above it, any other character stays.
\<close>

definition configured_channels :: "feed \<Rightarrow> string list" where
  "configured_channels self =
     (if subscription self = [] then channels self else map fst (subscription self))"

definition symbols_of :: "feed \<Rightarrow> string \<Rightarrow> string list" where
  "symbols_of self chan =
     (if subscription self = [] then symbols self
      else (case map_of (subscription self) chan of None \<Rightarrow> [] | Some pairs \<Rightarrow> pairs))"

definition lowercase_char :: "char \<Rightarrow> char" where
  "lowercase_char c =
     (if 65 \<le> (of_char c :: nat) \<and> (of_char c :: nat) \<le> 90
      then char_of ((of_char c :: nat) + 32)
      else c)"

definition lowercased :: "string \<Rightarrow> string" where
  "lowercased symbol = map lowercase_char symbol"

definition configured_symbols :: "feed \<Rightarrow> string list" where
  "configured_symbols self =
     (if subscription self = [] then symbols self else concat (map snd (subscription self)))"

definition stream_name :: "'t env \<Rightarrow> string \<Rightarrow> string \<Rightarrow> string" where
  "stream_name d chan symbol =
     lowercased symbol @ ''@'' @ (if chan = TICKER d then ''bookTicker'' else chan)"

definition stream_names :: "'t env \<Rightarrow> feed \<Rightarrow> string list" where
  "stream_names d self =
     concat (map (\<lambda>chan. map (stream_name d chan) (symbols_of self chan))
                 (filter (\<lambda>chan. chan \<noteq> OPEN_INTEREST d) (configured_channels self)))"

fun join :: "string \<Rightarrow> string list \<Rightarrow> string" where
  "join sep [] = []"
| "join sep [x] = x"
| "join sep (x # y # ys) = x @ sep @ join sep (y # ys)"

definition spec_address :: "'t env \<Rightarrow> feed \<Rightarrow> string option" where
  "spec_address d self =
     (if stream_names d self = [] then None
      else Some (ws_endpoint self @ ''/stream?streams='' @ join ''/'' (stream_names d self)))"

section \<open>Open interest\<close>

text \<open>
  \<^verbatim>\<open>_open_interest(self, msg, timestamp)\<close>; the \<^verbatim>\<open>timestamp\<close> argument is not used by
  the code. The arguments of the callback are evaluated in the order written, then the
  callback runs, then the cache is updated. What the sink does with the event, its own
  failures included, is outside the model.
\<close>

definition open_interest :: "'t env \<Rightarrow> feed \<Rightarrow> dict \<Rightarrow> 't \<Rightarrow> error + (feed \<times> 't effect list)" where
  "open_interest d self msg timestamp =
     (case map_of msg ''symbol'' of
        None \<Rightarrow> Inl (KeyError ''symbol'')
      | Some pair \<Rightarrow>
         (case map_of msg ''openInterest'' of
            None \<Rightarrow> Inl (KeyError ''openInterest'')
          | Some oi \<Rightarrow>
             if \<not> hashable pair then Inl TypeError
             else if oi \<noteq> get (open_interest_cache self) pair then
               (case symbol_exchange_to_std d pair of
                  Inl e \<Rightarrow> Inl e
                | Inr std_symbol \<Rightarrow>
                   (case map_of msg ''time'' of
                      None \<Rightarrow> Inl (KeyError ''time'')
                    | Some t \<Rightarrow>
                       (case timestamp_normalize d (feed_id self) t of
                          Inl e \<Rightarrow> Inl e
                        | Inr ts \<Rightarrow>
                           Inr (self\<lparr>open_interest_cache := (open_interest_cache self)(pair \<mapsto> oi)\<rparr>,
                                [Callback (OPEN_INTEREST d) (feed_id self) std_symbol oi ts (time_time d)]))))
             else Inr (self, [])))"

section \<open>Message dispatch\<close>

text \<open>
  The six normalizers \<^verbatim>\<open>_ticker\<close>, \<^verbatim>\<open>_book\<close>, \<^verbatim>\<open>_trade\<close>, \<^verbatim>\<open>_liquidations\<close>,
  \<^verbatim>\<open>_funding\<close> and \<^verbatim>\<open>_candle\<close> are inherited and not among the sources: they are
  parameters, each with the arguments the dispatcher passes, acting on the adapter.
\<close>

record ('c, 't) normalizers =
  ticker :: "dict \<Rightarrow> 't \<Rightarrow> feed \<Rightarrow> error + (feed \<times> 't effect list)"
  book :: "'c \<Rightarrow> dict \<Rightarrow> string \<Rightarrow> 't \<Rightarrow> feed \<Rightarrow> error + (feed \<times> 't effect list)"
  trade :: "dict \<Rightarrow> 't \<Rightarrow> feed \<Rightarrow> error + (feed \<times> 't effect list)"
  liquidations :: "dict \<Rightarrow> 't \<Rightarrow> feed \<Rightarrow> error + (feed \<times> 't effect list)"
  funding :: "dict \<Rightarrow> 't \<Rightarrow> feed \<Rightarrow> error + (feed \<times> 't effect list)"
  candle :: "dict \<Rightarrow> 't \<Rightarrow> feed \<Rightarrow> error + (feed \<times> 't effect list)"

text \<open>
  \<^verbatim>\<open>pair, _ = s.split('@', 1)\<close>: the text before the first \<open>@\<close>; without an \<open>@\<close> the
  split has one part and the unpacking raises \<open>ValueError\<close>.
\<close>

definition split_stream :: "string \<Rightarrow> error + string" where
  "split_stream s =
     (if CHR ''@'' \<in> set s then Inr (takeWhile (\<lambda>c. c \<noteq> CHR ''@'') s) else Inl ValueError)"

text \<open>
  The routing of the unwrapped payload, lines 131 to 145. The first five tests compare
  \<^verbatim>\<open>msg.get('e')\<close>; the sixth indexes \<^verbatim>\<open>msg['e']\<close>.
\<close>

definition dispatch ::
    "('c, 't) normalizers \<Rightarrow> feed \<Rightarrow> dict \<Rightarrow> string \<Rightarrow> 'c \<Rightarrow> 't \<Rightarrow> error + (feed \<times> 't effect list)" where
  "dispatch n self msg pair conn timestamp =
     (let msg_type = get (map_of msg) ''e''
      in if msg_type = JStr ''bookTicker'' then ticker n msg timestamp self
         else if msg_type = JStr ''depthUpdate'' then book n conn msg pair timestamp self
         else if msg_type = JStr ''aggTrade'' then trade n msg timestamp self
         else if msg_type = JStr ''forceOrder'' then liquidations n msg timestamp self
         else if msg_type = JStr ''markPriceUpdate'' then funding n msg timestamp self
         else
           (case map_of msg ''e'' of
              None \<Rightarrow> Inl (KeyError ''e'')
            | Some e \<Rightarrow>
               if e = JStr ''kline'' then candle n msg timestamp self
               else Inr (self,
                         [LogWarning ''%s: Unexpected message received: %s''
                            [JStr (feed_id self), JObj msg]])))"

text \<open>
  \<^verbatim>\<open>message_handler(self, msg, conn, timestamp)\<close>, from the decoded message on; the
  message is a JSON object. A value without the method the code calls on it raises
  \<open>AttributeError\<close>.
\<close>

definition message_handler ::
    "'t env \<Rightarrow> ('c, 't) normalizers \<Rightarrow> feed \<Rightarrow> dict \<Rightarrow> 'c \<Rightarrow> 't \<Rightarrow> error + (feed \<times> 't effect list)" where
  "message_handler d n self msg conn timestamp =
     (if map_of msg ''openInterest'' \<noteq> None then open_interest d self msg timestamp
      else
        (case map_of msg ''stream'' of
           None \<Rightarrow> Inl (KeyError ''stream'')
         | Some (JStr s) \<Rightarrow>
            (case split_stream s of
               Inl e \<Rightarrow> Inl e
             | Inr pair \<Rightarrow>
                (case map_of msg ''data'' of
                   None \<Rightarrow> Inl (KeyError ''data'')
                 | Some (JObj payload) \<Rightarrow> dispatch n self payload (str_upper d pair) conn timestamp
                 | Some _ \<Rightarrow> Inl AttributeError))
         | Some _ \<Rightarrow> Inl AttributeError))"

text \<open>The event-type tags the dispatcher knows.\<close>

definition recognized_tags :: "json list" where
  "recognized_tags =
     [JStr ''bookTicker'', JStr ''depthUpdate'', JStr ''aggTrade'', JStr ''forceOrder'',
      JStr ''markPriceUpdate'', JStr ''kline'']"

text \<open>A warning names a symbol when the symbol is among the arguments it is given.\<close>

fun warning_names :: "string \<Rightarrow> 't effect \<Rightarrow> bool" where
  "warning_names symbol (LogWarning fmt args) = (JStr symbol \<in> set args)"
| "warning_names symbol _ = False"

section \<open>Example inputs\<close>

text \<open>
  The scenario of section 8 of the specification: the snapshot seeds
  \<open>lastUpdateId = 100\<close>; diff A (\<open>U = 95\<close>, \<open>u = 101\<close>) brackets it, diff B
  (\<open>pu = 101\<close>, \<open>u = 103\<close>) continues, diff C (\<open>pu = 104\<close>) shows a gap.
\<close>

definition example_env :: "int env" where
  "example_env =
     \<lparr>OPEN_INTEREST = ''open_interest'', TICKER = ''ticker'',
      symbol_exchange_to_std =
        (\<lambda>j. if j = JStr ''BTCUSDT'' then Inr ''BTC-USDT'' else Inl (CollaboratorError ''symbol'')),
      timestamp_normalize =
        (\<lambda>f j. case j of JInt ms \<Rightarrow> Inr ms | _ \<Rightarrow> Inl (CollaboratorError ''timestamp'')),
      time_time = 1589437531000, str_lower = lower, str_upper = upper\<rparr>"

definition seeded :: feed where
  "seeded =
     \<lparr>feed_id = ''BINANCE_FUTURES'', ws_endpoint = ''wss://fstream.binance.com'',
      channels = [''ticker'', ''open_interest'', ''aggTrade''],
      symbols = [''BTCUSDT'', ''ETHUSDT''], subscription = [],
      forced = (\<lambda>_. False), last_update_id = [''BTCUSDT'' \<mapsto> 100],
      open_interest_cache = Map.empty\<rparr>"

definition after_A :: feed where
  "after_A = seeded\<lparr>last_update_id := [''BTCUSDT'' \<mapsto> 101],
                     forced := (\<lambda>_. False)(''BTCUSDT'' := True)\<rparr>"

definition after_B :: feed where
  "after_B = after_A\<lparr>last_update_id := [''BTCUSDT'' \<mapsto> 103]\<rparr>"

definition diff_A :: "string \<rightharpoonup> int" where
  "diff_A = [''U'' \<mapsto> 95, ''u'' \<mapsto> 101]"

definition diff_B :: "string \<rightharpoonup> int" where
  "diff_B = [''U'' \<mapsto> 102, ''u'' \<mapsto> 103, ''pu'' \<mapsto> 101]"

definition diff_C :: "string \<rightharpoonup> int" where
  "diff_C = [''U'' \<mapsto> 105, ''u'' \<mapsto> 106, ''pu'' \<mapsto> 104]"

definition diff_stale :: "string \<rightharpoonup> int" where
  "diff_stale = [''U'' \<mapsto> 90, ''u'' \<mapsto> 99]"

definition diff_backwards :: "string \<rightharpoonup> int" where
  "diff_backwards = [''U'' \<mapsto> 40, ''u'' \<mapsto> 50, ''pu'' \<mapsto> 103]"

text \<open>A polled response, and envelopes with a ticker payload, an unknown tag and no tag.\<close>

definition poll :: dict where
  "poll = [(''openInterest'', JStr ''10659.509''), (''symbol'', JStr ''BTCUSDT''),
           (''time'', JInt 1589437530011)]"

definition ticker_payload :: dict where
  "ticker_payload = [(''e'', JStr ''bookTicker''), (''s'', JStr ''BTCUSDT'')]"

definition unknown_payload :: dict where
  "unknown_payload = [(''e'', JStr ''listenKeyExpired'')]"

definition untagged_payload :: dict where
  "untagged_payload = [(''s'', JStr ''BTCUSDT'')]"

definition envelope :: "string \<Rightarrow> dict \<Rightarrow> dict" where
  "envelope s payload = [(''stream'', JStr s), (''data'', JObj payload)]"

text \<open>Normalizers that hand one event to the sink, named after themselves.\<close>

definition emit :: "string \<Rightarrow> feed \<Rightarrow> error + (feed \<times> int effect list)" where
  "emit name self = Inr (self, [Callback name (feed_id self) [] JNull 0 0])"

definition example_normalizers :: "(unit, int) normalizers" where
  "example_normalizers =
     \<lparr>ticker = (\<lambda>m t. emit ''ticker''), book = (\<lambda>c m p t. emit ''l2_book''),
      trade = (\<lambda>m t. emit ''trades''), liquidations = (\<lambda>m t. emit ''liquidations''),
      funding = (\<lambda>m t. emit ''funding''), candle = (\<lambda>m t. emit ''candles'')\<rparr>"

section \<open>The consistency check, case by case\<close>

text \<open>
  C1. A diff received while the symbol is Unsynced whose range brackets the snapshot
  boundary (\<open>U \<le> lastUpdateId \<le> u\<close>) is applied: \<open>skip\<close> is false, the symbol's
  \<open>lastUpdateId\<close> becomes \<open>u\<close> and the symbol is Synced. Nothing is emitted.
\<close>

theorem check_update_id_bracketing:
  assumes "unsynced self pair"
    and "last_update_id self pair = Some l"
    and "msg ''U'' = Some U" and "msg ''u'' = Some u"
    and "U \<le> l" and "l \<le> u"
  shows "\<exists>self'. check_update_id rst self pair msg = Inr ((False, True), self', [])
           \<and> self' = self\<lparr>last_update_id := (last_update_id self)(pair \<mapsto> u),
                            forced := (forced self)(pair := True)\<rparr>
           \<and> last_update_id self' pair = Some u \<and> synced self' pair"
  using assms by (simp add: check_update_id_def unsynced_def synced_def)

theorem check_update_id_bracketing_witness:
  "unsynced seeded ''BTCUSDT'' \<and> last_update_id seeded ''BTCUSDT'' = Some 100
   \<and> diff_A ''U'' = Some 95 \<and> diff_A ''u'' = Some 101
   \<and> (\<exists>self'. check_update_id reset seeded ''BTCUSDT'' diff_A
                  = Inr ((False, True), self', ([] :: int effect list))
         \<and> last_update_id self' ''BTCUSDT'' = Some 101 \<and> synced self' ''BTCUSDT'')"
proof -
  have h: "unsynced seeded ''BTCUSDT''" "last_update_id seeded ''BTCUSDT'' = Some 100"
      "diff_A ''U'' = Some 95" "diff_A ''u'' = Some 101"
    by (simp_all add: unsynced_def seeded_def diff_A_def)
  from check_update_id_bracketing
         [where self = seeded and pair = "''BTCUSDT''" and msg = diff_A and rst = reset, OF h] h
  show ?thesis by auto
qed

text \<open>
  C2. A diff received while the symbol is Synced whose \<open>pu\<close> equals the symbol's
  \<open>lastUpdateId\<close> is applied: \<open>skip\<close> is false, \<open>lastUpdateId\<close> becomes the diff's
  \<open>u\<close> and the symbol stays Synced.
\<close>

theorem check_update_id_continuity:
  assumes "synced self pair"
    and "last_update_id self pair = Some l"
    and "msg ''pu'' = Some l" and "msg ''u'' = Some u"
  shows "\<exists>self'. check_update_id rst self pair msg = Inr ((False, False), self', [])
           \<and> self' = self\<lparr>last_update_id := (last_update_id self)(pair \<mapsto> u)\<rparr>
           \<and> last_update_id self' pair = Some u \<and> synced self' pair"
  using assms by (simp add: check_update_id_def synced_def)

theorem check_update_id_continuity_witness:
  "synced after_A ''BTCUSDT'' \<and> last_update_id after_A ''BTCUSDT'' = Some 101
   \<and> diff_B ''pu'' = Some 101 \<and> diff_B ''u'' = Some 103
   \<and> (\<exists>self'. check_update_id reset after_A ''BTCUSDT'' diff_B
                  = Inr ((False, False), self', ([] :: int effect list))
         \<and> last_update_id self' ''BTCUSDT'' = Some 103 \<and> synced self' ''BTCUSDT'')"
proof -
  have h: "synced after_A ''BTCUSDT''" "last_update_id after_A ''BTCUSDT'' = Some 101"
      "diff_B ''pu'' = Some 101" "diff_B ''u'' = Some 103"
    by (simp_all add: synced_def after_A_def seeded_def diff_B_def)
  from check_update_id_continuity
         [where self = after_A and pair = "''BTCUSDT''" and msg = diff_B and rst = reset, OF h] h
  show ?thesis by auto
qed

text \<open>
  C3. A diff received while the symbol is Synced whose \<open>pu\<close> differs from the symbol's
  \<open>lastUpdateId\<close> is skipped, the symbol becomes Unsynced, and the call signals exactly one
  resync: one call of \<^verbatim>\<open>_reset\<close> and one warning.
\<close>

theorem check_update_id_gap:
  assumes "synced self pair"
    and "last_update_id self pair = Some l"
    and "msg ''pu'' = Some pu" and "pu \<noteq> l"
  shows "\<exists>self'. check_update_id reset self pair msg
                   = Inr ((True, False), self',
                          [ResetCalled,
                           LogWarning ''%s: Missing book update detected, resetting book''
                             [JStr (feed_id self)]])
           \<and> unsynced self' pair"
  using assms by (auto simp add: check_update_id_def resync_def reset_def synced_def unsynced_def)

theorem check_update_id_gap_witness:
  "synced after_B ''BTCUSDT'' \<and> last_update_id after_B ''BTCUSDT'' = Some 103
   \<and> diff_C ''pu'' = Some 104 \<and> (104::int) \<noteq> 103
   \<and> (\<exists>self'. check_update_id reset after_B ''BTCUSDT'' diff_C
                  = Inr ((True, False), self',
                         [ResetCalled,
                          LogWarning ''%s: Missing book update detected, resetting book''
                            [JStr ''BINANCE_FUTURES'']] :: int effect list)
         \<and> unsynced self' ''BTCUSDT'')"
proof -
  have h: "synced after_B ''BTCUSDT''" "last_update_id after_B ''BTCUSDT'' = Some 103"
      "diff_C ''pu'' = Some 104" "(104::int) \<noteq> 103"
    by (simp_all add: synced_def after_B_def after_A_def seeded_def diff_C_def)
  have "feed_id after_B = ''BINANCE_FUTURES''"
    by (simp add: after_B_def after_A_def seeded_def)
  with check_update_id_gap
         [where self = after_B and pair = "''BTCUSDT''" and msg = diff_C, OF h] h
  show ?thesis by auto
qed

text \<open>
  C4. A diff received while the symbol is Unsynced whose \<open>u\<close> is less than the
  symbol's \<open>lastUpdateId\<close> is skipped; the adapter (so the symbol's \<open>lastUpdateId\<close> and
  flag) is unchanged and no resync is signalled.
\<close>

theorem check_update_id_stale:
  assumes "unsynced self pair"
    and "last_update_id self pair = Some l"
    and "msg ''u'' = Some u" and "u < l"
  shows "check_update_id rst self pair msg = Inr ((True, True), self, [])"
  using assms by (simp add: check_update_id_def unsynced_def)

theorem check_update_id_stale_witness:
  "unsynced seeded ''BTCUSDT'' \<and> last_update_id seeded ''BTCUSDT'' = Some 100
   \<and> diff_stale ''u'' = Some 99 \<and> (99::int) < 100
   \<and> check_update_id reset seeded ''BTCUSDT'' diff_stale
       = Inr ((True, True), seeded, ([] :: int effect list))"
proof -
  have h: "unsynced seeded ''BTCUSDT''" "last_update_id seeded ''BTCUSDT'' = Some 100"
      "diff_stale ''u'' = Some 99" "(99::int) < 100"
    by (simp_all add: unsynced_def seeded_def diff_stale_def)
  from check_update_id_stale
         [where self = seeded and pair = "''BTCUSDT''" and msg = diff_stale and rst = reset, OF h] h
  show ?thesis by simp
qed

text \<open>
  The scenario of section 8 of the specification, run on the code: A is applied and the
  symbol is Synced at 101, B is applied and moves it to 103, C is skipped with a resync.
\<close>

lemma spec_scenario:
  "check_update_id reset seeded ''BTCUSDT'' diff_A = Inr ((False, True), after_A, ([] :: int effect list))"
  "check_update_id reset after_A ''BTCUSDT'' diff_B = Inr ((False, False), after_B, ([] :: int effect list))"
  "check_update_id reset after_B ''BTCUSDT'' diff_C
     = Inr ((True, False), reset after_B,
            [ResetCalled,
             LogWarning ''%s: Missing book update detected, resetting book''
               [JStr ''BINANCE_FUTURES'']] :: int effect list)"
  "unsynced (reset after_B) ''BTCUSDT''"
  by (simp_all add: check_update_id_def resync_def reset_def unsynced_def
        seeded_def after_A_def after_B_def diff_A_def diff_B_def diff_C_def)

section \<open>Resynchronisation\<close>

text \<open>
  The gap branch, for any \<^verbatim>\<open>_reset\<close>: the adapter afterwards is \<^verbatim>\<open>_reset\<close> of the
  adapter before, and what is emitted does not depend on the symbol or on the diff.
\<close>

lemma gap_outcome:
  assumes "synced self pair"
    and "last_update_id self pair = Some l"
    and "msg ''pu'' = Some pu" and "pu \<noteq> l"
  shows "check_update_id rst self pair msg
           = Inr ((True, False), rst self,
                  [ResetCalled,
                   LogWarning ''%s: Missing book update detected, resetting book''
                     [JStr (feed_id (rst self))]] :: 't effect list)"
  using assms by (simp add: check_update_id_def resync_def synced_def Let_def)

text \<open>
  Two symbols with a gap in the same adapter: if the resync for the first leaves the
  second Synced, then the resync for the second leaves it Synced as well. No
  \<^verbatim>\<open>_reset\<close> called without the symbol can both return the symbol with the gap to
  Unsynced and leave every other symbol as it was.
\<close>

lemma gap_frame_excludes_unsync:
  assumes "synced self p" and "last_update_id self p = Some l"
    and "m ''pu'' = Some pu" and "pu \<noteq> l"
    and "synced self q" and "last_update_id self q = Some l'"
    and "m' ''pu'' = Some pu'" and "pu' \<noteq> l'"
    and "check_update_id rst self p m = Inr (r, self1, (e1 :: 't effect list))"
    and "check_update_id rst self q m' = Inr (r', self2, (e2 :: 't effect list))"
    and "synced self1 q"
  shows "synced self2 q"
proof -
  have "self1 = rst self"
    using gap_outcome [where 't = 't and msg = m and rst = rst, OF assms(1-4)] assms(9) by simp
  moreover have "self2 = rst self"
    using gap_outcome [where 't = 't and msg = m' and rst = rst, OF assms(5-8)] assms(10) by simp
  ultimately show ?thesis using assms(11) by simp
qed

text \<open>
  C5, as the code has it. A resync triggered by a sequence gap on one symbol hands the
  whole adapter to the inherited \<^verbatim>\<open>_reset()\<close>, which is given no symbol: the adapter
  after the call is \<^verbatim>\<open>_reset\<close> of the adapter before, whichever symbol had the gap. The
  call emits one warning, whose only argument is the feed id; it names the symbol only
  if the feed id is the symbol.
\<close>

theorem resync_is_adapter_wide:
  assumes "synced self pair"
    and "last_update_id self pair = Some l"
    and "msg ''pu'' = Some pu" and "pu \<noteq> l"
  shows "\<exists>w. check_update_id rst self pair msg
               = Inr ((True, False), rst self, [ResetCalled, w :: 't effect])
           \<and> w = LogWarning ''%s: Missing book update detected, resetting book''
                    [JStr (feed_id (rst self))]
           \<and> (warning_names pair w \<longleftrightarrow> feed_id (rst self) = pair)"
  using gap_outcome [where 't = 't and msg = msg and rst = rst, OF assms] by auto

theorem resync_is_adapter_wide_witness:
  "synced after_B ''BTCUSDT'' \<and> last_update_id after_B ''BTCUSDT'' = Some 103
   \<and> diff_C ''pu'' = Some 104 \<and> (104::int) \<noteq> 103
   \<and> (\<exists>w. check_update_id reset after_B ''BTCUSDT'' diff_C
              = Inr ((True, False), reset after_B, [ResetCalled, w :: int effect])
         \<and> w = LogWarning ''%s: Missing book update detected, resetting book''
                  [JStr ''BINANCE_FUTURES'']
         \<and> \<not> warning_names ''BTCUSDT'' w)"
proof -
  have h: "synced after_B ''BTCUSDT''" "last_update_id after_B ''BTCUSDT'' = Some 103"
      "diff_C ''pu'' = Some 104" "(104::int) \<noteq> 103"
    by (simp_all add: synced_def after_B_def after_A_def seeded_def diff_C_def)
  have "feed_id (reset after_B) = ''BINANCE_FUTURES''"
    by (simp add: reset_def after_B_def after_A_def seeded_def)
  with resync_is_adapter_wide
         [where self = after_B and pair = "''BTCUSDT''" and msg = diff_C and rst = reset, OF h] h
  show ?thesis by auto
qed

text \<open>
  C5 as stated fails: after the gap on \<open>BTCUSDT\<close> in the scenario of the specification,
  the one warning carries the feed id and does not name the symbol.
\<close>

theorem resync_warning_counterexample:
  "check_update_id reset after_B ''BTCUSDT'' diff_C
     = Inr ((True, False), reset after_B,
            [ResetCalled,
             LogWarning ''%s: Missing book update detected, resetting book''
               [JStr ''BINANCE_FUTURES'']] :: int effect list)
   \<and> \<not> warning_names ''BTCUSDT''
         (LogWarning ''%s: Missing book update detected, resetting book''
            [JStr ''BINANCE_FUTURES''] :: int effect)"
  by (simp add: check_update_id_def resync_def reset_def after_B_def after_A_def seeded_def
        diff_C_def)

section \<open>The invariant of a synced symbol\<close>

text \<open>
  C6, as the code has it. Once a symbol is Synced, a call of \<^verbatim>\<open>_check_update_id\<close> (for
  any symbol) makes it Unsynced only if the call performs the resync. A call without a
  resync for another symbol leaves the symbol's \<open>lastUpdateId\<close> as it is; a call without
  a resync for the symbol itself accepts the diff, whose \<open>pu\<close> is the \<open>lastUpdateId\<close> before,
  and sets \<open>lastUpdateId\<close> to the diff's \<open>u\<close>. So \<open>lastUpdateId\<close> strictly increases on an
  accepted diff whose \<open>u\<close> is greater than its \<open>pu\<close>; the code does not compare the two.
\<close>

theorem synced_symbol_step:
  assumes "synced self p"
    and "check_update_id rst self q msg = Inr ((skip, fo), self', (effs :: 't effect list))"
  shows "(\<not> synced self' p \<longrightarrow> ResetCalled \<in> set effs)
       \<and> (ResetCalled \<notin> set effs \<and> q \<noteq> p \<longrightarrow> last_update_id self' p = last_update_id self p)
       \<and> (ResetCalled \<notin> set effs \<and> q = p \<longrightarrow>
            \<not> skip \<and> (\<exists>l u. last_update_id self p = Some l \<and> msg ''pu'' = Some l
                          \<and> msg ''u'' = Some u \<and> last_update_id self' p = Some u))
       \<and> (\<forall>pu u. ResetCalled \<notin> set effs \<and> q = p \<and> msg ''pu'' = Some pu \<and> msg ''u'' = Some u
                  \<and> pu < u \<longrightarrow>
            (\<exists>l l'. last_update_id self p = Some l \<and> last_update_id self' p = Some l' \<and> l < l'))"
  using assms
  by (auto simp add: check_update_id_def resync_def synced_def Let_def
           split: if_splits option.splits)

theorem synced_symbol_step_witness:
  "synced after_A ''BTCUSDT''
   \<and> check_update_id reset after_A ''BTCUSDT'' diff_B = Inr ((False, False), after_B, ([] :: int effect list))
   \<and> synced after_B ''BTCUSDT''
   \<and> last_update_id after_A ''BTCUSDT'' = Some 101
   \<and> last_update_id after_B ''BTCUSDT'' = Some 103 \<and> (101::int) < 103"
proof -
  have h: "synced after_A ''BTCUSDT''"
    by (simp add: synced_def after_A_def)
  have c: "check_update_id reset after_A ''BTCUSDT'' diff_B
             = Inr ((False, False), after_B, ([] :: int effect list))"
    by (simp add: check_update_id_def after_B_def after_A_def seeded_def diff_B_def)
  from synced_symbol_step [OF h c] h c show ?thesis
    by (auto simp add: diff_B_def after_A_def)
qed

text \<open>
  C6 as stated fails: a symbol Synced at \<open>lastUpdateId = 103\<close> receives a diff with
  \<open>pu = 103\<close> and \<open>u = 50\<close>; the diff is accepted, the symbol stays Synced and its
  \<open>lastUpdateId\<close> drops to 50.
\<close>

theorem accepted_diff_decreases_counterexample:
  "synced after_B ''BTCUSDT'' \<and> last_update_id after_B ''BTCUSDT'' = Some 103
   \<and> check_update_id reset after_B ''BTCUSDT'' diff_backwards
       = Inr ((False, False), after_B\<lparr>last_update_id := [''BTCUSDT'' \<mapsto> 50]\<rparr>,
              ([] :: int effect list))
   \<and> synced (after_B\<lparr>last_update_id := [''BTCUSDT'' \<mapsto> 50]\<rparr>) ''BTCUSDT''
   \<and> (50::int) < 103"
  by (simp add: check_update_id_def synced_def after_B_def after_A_def seeded_def
        diff_backwards_def)

section \<open>Message dispatch\<close>

text \<open>
  C7. For an unwrapped combined-stream payload: with the tag \<open>bookTicker\<close> the outcome of
  the handler is the outcome of the ticker normalizer on that payload, whatever the other
  normalizers are; with a tag that is none of the six recognized ones no normalizer
  runs, exactly one warning is emitted and the adapter is unchanged.
\<close>

theorem dispatch_routing:
  assumes "map_of msg ''openInterest'' = None"
    and "map_of msg ''stream'' = Some (JStr s)" and "CHR ''@'' \<in> set s"
    and "map_of msg ''data'' = Some (JObj payload)"
  shows "(map_of payload ''e'' = Some (JStr ''bookTicker'') \<longrightarrow>
            message_handler d n self msg conn timestamp = ticker n payload timestamp self)
       \<and> (\<forall>tag. map_of payload ''e'' = Some tag \<and> tag \<notin> set recognized_tags \<longrightarrow>
            message_handler d n self msg conn timestamp
              = Inr (self, [LogWarning ''%s: Unexpected message received: %s''
                              [JStr (feed_id self), JObj payload]]))"
  using assms
  by (simp add: message_handler_def split_stream_def dispatch_def get_def recognized_tags_def)

theorem dispatch_routing_witness:
  "message_handler example_env example_normalizers seeded
       (envelope ''btcusdt@bookTicker'' ticker_payload) () 0
     = Inr (seeded, [Callback ''ticker'' ''BINANCE_FUTURES'' [] JNull 0 0])
   \<and> message_handler example_env example_normalizers seeded
       (envelope ''btcusdt@bookTicker'' unknown_payload) () 0
     = Inr (seeded, [LogWarning ''%s: Unexpected message received: %s''
                       [JStr ''BINANCE_FUTURES'', JObj unknown_payload]])"
proof -
  have h: "map_of (envelope ''btcusdt@bookTicker'' p) ''openInterest'' = None"
      "map_of (envelope ''btcusdt@bookTicker'' p) ''stream'' = Some (JStr ''btcusdt@bookTicker'')"
      "CHR ''@'' \<in> set ''btcusdt@bookTicker''"
      "map_of (envelope ''btcusdt@bookTicker'' p) ''data'' = Some (JObj p)" for p
    by (simp_all add: envelope_def)
  have t: "map_of ticker_payload ''e'' = Some (JStr ''bookTicker'')"
    by (simp add: ticker_payload_def)
  have u: "map_of unknown_payload ''e'' = Some (JStr ''listenKeyExpired'')"
      "JStr ''listenKeyExpired'' \<notin> set recognized_tags"
    by (simp_all add: unknown_payload_def recognized_tags_def)
  from dispatch_routing [OF h, of ticker_payload example_env example_normalizers seeded "()" 0] t
    dispatch_routing [OF h, of unknown_payload example_env example_normalizers seeded "()" 0] u
  show ?thesis
    by (simp add: example_normalizers_def emit_def seeded_def)
qed

text \<open>
  C10. For an envelope whose payload has no field \<open>e\<close> the handler raises \<open>KeyError\<close>:
  no normalizer runs and no warning is emitted, whatever the normalizers are.
\<close>

theorem missing_event_type_raises:
  assumes "map_of msg ''openInterest'' = None"
    and "map_of msg ''stream'' = Some (JStr s)" and "CHR ''@'' \<in> set s"
    and "map_of msg ''data'' = Some (JObj payload)"
    and "map_of payload ''e'' = None"
  shows "message_handler d n self msg conn timestamp = Inl (KeyError ''e'')"
  using assms
  by (simp add: message_handler_def split_stream_def dispatch_def get_def)

theorem missing_event_type_raises_witness:
  "map_of untagged_payload ''e'' = None
   \<and> message_handler example_env example_normalizers seeded
       (envelope ''btcusdt@depth'' untagged_payload) () 0
     = Inl (KeyError ''e'')"
proof -
  have h: "map_of (envelope ''btcusdt@depth'' untagged_payload) ''openInterest'' = None"
      "map_of (envelope ''btcusdt@depth'' untagged_payload) ''stream'' = Some (JStr ''btcusdt@depth'')"
      "CHR ''@'' \<in> set ''btcusdt@depth''"
      "map_of (envelope ''btcusdt@depth'' untagged_payload) ''data'' = Some (JObj untagged_payload)"
      "map_of untagged_payload ''e'' = None"
    by (simp_all add: envelope_def untagged_payload_def)
  from missing_event_type_raises [OF h, of example_env example_normalizers seeded "()" 0] h(5)
  show ?thesis by simp
qed

section \<open>Open-interest deduplication\<close>

text \<open>
  C8. For a polled response with its three fields, whose symbol and time the
  collaborators accept: an event is forwarded exactly when the value differs from the
  cached one (\<open>None\<close> when nothing is cached), and then the cache holds the value; a
  following poll with the same symbol and value forwards nothing, so the two polls
  forward at most one event, and none when the value was the cached one.
\<close>

theorem open_interest_dedup:
  assumes "map_of msg ''symbol'' = Some pair" and "hashable pair"
    and "map_of msg ''openInterest'' = Some oi"
    and "map_of msg ''time'' = Some t"
    and "symbol_exchange_to_std d pair = Inr std_symbol"
    and "timestamp_normalize d (feed_id self) t = Inr ts"
    and "map_of msg' ''symbol'' = Some pair"
    and "map_of msg' ''openInterest'' = Some oi"
  shows "\<exists>self' effs.
           open_interest d self msg timestamp = Inr (self', effs)
         \<and> (effs \<noteq> [] \<longleftrightarrow> oi \<noteq> get (open_interest_cache self) pair)
         \<and> (oi \<noteq> get (open_interest_cache self) pair \<longrightarrow>
              effs = [Callback (OPEN_INTEREST d) (feed_id self) std_symbol oi ts (time_time d)]
              \<and> self' = self\<lparr>open_interest_cache := (open_interest_cache self)(pair \<mapsto> oi)\<rparr>)
         \<and> (oi = get (open_interest_cache self) pair \<longrightarrow> self' = self)
         \<and> open_interest d self' msg' timestamp' = Inr (self', [])
         \<and> length effs \<le> 1"
  using assms by (simp add: open_interest_def get_def)

theorem open_interest_dedup_witness:
  "map_of poll ''symbol'' = Some (JStr ''BTCUSDT'')
   \<and> map_of poll ''openInterest'' = Some (JStr ''10659.509'')
   \<and> get (open_interest_cache seeded) (JStr ''BTCUSDT'') = JNull
   \<and> (\<exists>self'. open_interest example_env seeded poll 0
                 = Inr (self', [Callback ''open_interest'' ''BINANCE_FUTURES'' ''BTC-USDT''
                                  (JStr ''10659.509'') 1589437530011 1589437531000])
         \<and> open_interest_cache self' (JStr ''BTCUSDT'') = Some (JStr ''10659.509'')
         \<and> open_interest example_env self' poll 0 = Inr (self', []))"
proof -
  have h: "map_of poll ''symbol'' = Some (JStr ''BTCUSDT'')" "hashable (JStr ''BTCUSDT'')"
      "map_of poll ''openInterest'' = Some (JStr ''10659.509'')"
      "map_of poll ''time'' = Some (JInt 1589437530011)"
      "symbol_exchange_to_std example_env (JStr ''BTCUSDT'') = Inr ''BTC-USDT''"
      "timestamp_normalize example_env (feed_id seeded) (JInt 1589437530011) = Inr 1589437530011"
    by (simp_all add: poll_def example_env_def)
  have g: "get (open_interest_cache seeded) (JStr ''BTCUSDT'') = JNull"
    by (simp add: get_def seeded_def)
  from open_interest_dedup [OF h h(1) h(3), of 0 0] g h
  show ?thesis
    by (auto simp add: example_env_def seeded_def)
qed

section \<open>The streaming address\<close>

text \<open>
  The table of \<open>lower\<close> and the statement on character codes agree on every character.
\<close>

lemma lower_char_code: "\<forall>c. lower_char c = lowercase_char c"
  by code_simp

lemma lower_lowercased: "lower s = lowercased s"
  by (simp add: lower_def lowercased_def lower_char_code)

text \<open>The inner loop appends the stream names of one channel, each followed by a slash.\<close>

lemma address_pairs_append:
  assumes "\<forall>p \<in> set pairs. str_lower d p = lowercased p"
  shows "address_pairs d chan pairs a
           = a @ concat (map (\<lambda>s. s @ ''/'') (map (stream_name d chan) pairs))"
  using assms by (induction pairs arbitrary: a) (simp_all add: stream_name_def Let_def)

text \<open>The symbols of a channel are among the configured symbols.\<close>

lemma symbols_of_configured: "set (symbols_of self chan) \<subseteq> set (configured_symbols self)"
proof (cases "map_of (subscription self) chan")
  case None
  then show ?thesis by (simp add: symbols_of_def configured_symbols_def)
next
  case (Some pairs)
  then have "(chan, pairs) \<in> set (subscription self)"
    by (rule map_of_SomeD)
  then have "set pairs \<subseteq> set (concat (map snd (subscription self)))"
    by force
  with Some show ?thesis by (simp add: symbols_of_def configured_symbols_def)
qed

text \<open>
  The outer loop, over channels that are keys of the subscription when there is one:
  it never raises, and appends the stream names of the channels other than open
  interest.
\<close>

lemma address_chans_append:
  assumes "subscription self = [] \<or> set chans \<subseteq> fst ` set (subscription self)"
    and low: "\<forall>p \<in> set (configured_symbols self). str_lower d p = lowercased p"
  shows "address_chans d self chans a
           = Inr (a @ concat (map (\<lambda>s. s @ ''/'')
                    (concat (map (\<lambda>chan. map (stream_name d chan) (symbols_of self chan))
                                 (filter (\<lambda>chan. chan \<noteq> OPEN_INTEREST d) chans)))))"
  using assms(1)
proof (induction chans arbitrary: a)
  case Nil
  show ?case by simp
next
  case (Cons chan rest)
  have rest: "subscription self = [] \<or> set rest \<subseteq> fst ` set (subscription self)"
    using Cons.prems by auto
  have inner: "address_pairs d chan (symbols_of self chan) b
                 = b @ concat (map (\<lambda>s. s @ ''/'') (map (stream_name d chan) (symbols_of self chan)))"
    for b
    using low symbols_of_configured [of self chan] by (intro address_pairs_append) blast
  show ?case
  proof (cases "chan = OPEN_INTEREST d")
    case True
    then show ?thesis using Cons.IH [OF rest] by simp
  next
    case other: False
    show ?thesis
    proof (cases "subscription self = []")
      case True
      then have "symbols_of self chan = symbols self"
        by (simp add: symbols_of_def)
      with inner have "address_pairs d chan (symbols self) a
          = a @ concat (map (\<lambda>s. s @ ''/'') (map (stream_name d chan) (symbols_of self chan)))"
        by metis
      then show ?thesis
        using other True Cons.IH [OF rest] by simp
    next
      case False
      then have "chan \<in> fst ` set (subscription self)"
        using Cons.prems by auto
      then obtain pairs where pairs: "map_of (subscription self) chan = Some pairs"
        by (cases "map_of (subscription self) chan") (auto simp add: map_of_eq_None_iff)
      with False have "symbols_of self chan = pairs"
        by (simp add: symbols_of_def)
      with inner have "address_pairs d chan pairs a
          = a @ concat (map (\<lambda>s. s @ ''/'') (map (stream_name d chan) (symbols_of self chan)))"
        by metis
      then show ?thesis
        using other False pairs Cons.IH [OF rest] by simp
    qed
  qed
qed

lemma slashed_empty: "concat (map (\<lambda>s. s @ ''/'') ss) = [] \<longleftrightarrow> ss = []"
  by (cases ss) simp_all

text \<open>Dropping the last slash leaves the names joined by slashes.\<close>

lemma butlast_slashed:
  "ss \<noteq> [] \<Longrightarrow> butlast (concat (map (\<lambda>s. s @ ''/'') ss)) = join ''/'' ss"
proof (induction ss)
  case Nil
  then show ?case by simp
next
  case (Cons x rest)
  note IH = Cons.IH
  show ?case
  proof (cases rest)
    case Nil
    then show ?thesis by (simp add: butlast_append)
  next
    case (Cons y ys)
    with IH show ?thesis by (simp add: butlast_append)
  qed
qed

text \<open>
  C9. For every configuration whose symbols are ASCII text, on which \<^verbatim>\<open>str.lower()\<close>
  is \<open>lower\<close>, the builder returns what the specification describes: no address when
  no stream name is contributed, and otherwise the endpoint followed by the stream names
  joined by slashes, where the open-interest channel contributes no name, the ticker
  channel contributes \<open><symbol>@bookTicker\<close> and any other channel
  \<open><symbol>@<channel>\<close>, with every capital letter of the symbol replaced by its small
  letter. The builder never raises.
\<close>

theorem address_refines_spec:
  assumes "list_all is_ascii (configured_symbols self)"
    and "\<forall>s. is_ascii s \<longrightarrow> str_lower d s = lower s"
  shows "address d self = Inr (spec_address d self)"
proof -
  let ?chans = "if subscription self = [] then channels self else map fst (subscription self)"
  let ?prefix = "ws_endpoint self @ ''/stream?streams=''"
  have keys: "subscription self = [] \<or> set ?chans \<subseteq> fst ` set (subscription self)"
    by simp
  have low: "\<forall>p \<in> set (configured_symbols self). str_lower d p = lowercased p"
    using assms by (simp add: list_all_iff lower_lowercased)
  have loop: "address_chans d self ?chans ?prefix
                = Inr (?prefix @ concat (map (\<lambda>s. s @ ''/'') (stream_names d self)))"
    unfolding address_chans_append [OF keys low] stream_names_def configured_channels_def ..
  show ?thesis
  proof (cases "stream_names d self = []")
    case True
    then show ?thesis
      unfolding address_def loop by (simp add: spec_address_def)
  next
    case False
    then have "concat (map (\<lambda>s. s @ ''/'') (stream_names d self)) \<noteq> []"
      by (simp add: slashed_empty)
    then show ?thesis
      unfolding address_def loop
      using False by (simp add: spec_address_def butlast_append butlast_slashed)
  qed
qed

text \<open>
  The builder on the example configuration: the symbols \<open>BTCUSDT\<close> and \<open>ETHUSDT\<close>
  appear in small letters, the ticker channel as \<open>bookTicker\<close>, and the open-interest
  channel, though configured, does not appear.
\<close>

theorem address_refines_spec_witness:
  "list_all is_ascii (configured_symbols seeded)
   \<and> configured_symbols seeded = [''BTCUSDT'', ''ETHUSDT'']
   \<and> configured_channels seeded = [''ticker'', ''open_interest'', ''aggTrade'']
   \<and> address example_env seeded
       = Inr (Some (''wss://fstream.binance.com/stream?streams=''
                    @ ''btcusdt@bookTicker/ethusdt@bookTicker/btcusdt@aggTrade/ethusdt@aggTrade''))
   \<and> spec_address example_env seeded
       = Some (''wss://fstream.binance.com/stream?streams=''
               @ ''btcusdt@bookTicker/ethusdt@bookTicker/btcusdt@aggTrade/ethusdt@aggTrade'')"
proof -
  have h: "list_all is_ascii (configured_symbols seeded)"
    by (simp add: configured_symbols_def seeded_def is_ascii_def)
  have p: "\<forall>s. is_ascii s \<longrightarrow> str_lower example_env s = lower s"
    by (simp add: example_env_def)
  have a: "address example_env seeded
             = Inr (Some (''wss://fstream.binance.com/stream?streams=''
                  @ ''btcusdt@bookTicker/ethusdt@bookTicker/btcusdt@aggTrade/ethusdt@aggTrade''))"
    by (simp add: address_def example_env_def seeded_def lower_def lower_char_def)
  have c: "configured_symbols seeded = [''BTCUSDT'', ''ETHUSDT'']"
      "configured_channels seeded = [''ticker'', ''open_interest'', ''aggTrade'']"
    by (simp_all add: configured_symbols_def configured_channels_def seeded_def)
  from address_refines_spec [OF h p] a h c show ?thesis by simp
qed

text \<open>With the open-interest channel alone there is no address.\<close>

lemma address_none_example:
  "address example_env (seeded\<lparr>channels := [''open_interest'']\<rparr>) = Inr None"
  by (simp add: address_def example_env_def seeded_def)

end
